theory Spec2Isabelle
  imports Main "HOL-Library.Sublist"
begin

section \<open>The development server script \<^verbatim>\<open>start_server.py\<close>\<close>

text \<open>
  The script is one function, \<^verbatim>\<open>main\<close>, that talks to the operating system through
  six calls: \<^verbatim>\<open>os.chdir\<close>, \<^verbatim>\<open>Path.exists\<close>, the constructor
  \<^verbatim>\<open>socketserver.TCPServer\<close>, \<^verbatim>\<open>webbrowser.open\<close>, \<^verbatim>\<open>httpd.serve_forever\<close> and
  \<^verbatim>\<open>httpd.shutdown\<close>, and through \<^verbatim>\<open>print\<close> and \<^verbatim>\<open>sys.exit\<close>. The model makes the
  answers of the outside world a parameter (the record \<open>env\<close>) and returns what the
  process did: the sequence of calls and printed lines, the binding of the local variable
  \<^verbatim>\<open>httpd\<close>, and how the process ended.
\<close>

subsection \<open>Exceptions\<close>

text \<open>
  The exception classes that the handlers of \<^verbatim>\<open>main\<close> tell apart. The string of
  \<open>OSError\<close>, \<open>Exception\<close> and \<open>BaseException\<close> is what \<^verbatim>\<open>str(e)\<close> gives; the
  \<open>int option\<close> of \<open>OSError\<close> is \<^verbatim>\<open>e.errno\<close> (\<open>None\<close> as in Python).
  \<open>Exception s\<close> stands for any instance of \<^verbatim>\<open>Exception\<close> that is no \<^verbatim>\<open>OSError\<close>,
  \<open>BaseException s\<close> for an instance of \<^verbatim>\<open>BaseException\<close> outside \<^verbatim>\<open>Exception\<close>
  other than \<^verbatim>\<open>KeyboardInterrupt\<close>. \<open>UnboundLocalError v\<close> is raised by reading the
  local variable \<open>v\<close> before it was assigned.
\<close>

datatype exc =
    KeyboardInterrupt
  | OSError "int option" string
  | Exception string
  | UnboundLocalError string
  | BaseException string

fun is_Exception :: "exc \<Rightarrow> bool" where
  "is_Exception KeyboardInterrupt = False"
| "is_Exception (OSError n s) = True"
| "is_Exception (Exception s) = True"
| "is_Exception (UnboundLocalError v) = True"
| "is_Exception (BaseException s) = False"

fun str_exc :: "exc \<Rightarrow> string" where
  "str_exc KeyboardInterrupt = []"
| "str_exc (OSError n s) = s"
| "str_exc (Exception s) = s"
| "str_exc (UnboundLocalError v) =
     ''cannot access local variable '' @ [CHR 0x27] @ v @ [CHR 0x27] @
     '' where it is not associated with a value''"
| "str_exc (BaseException s) = s"

text \<open>
  An external call returns a value, raises, or never returns (\<open>Blocks\<close>): the serve loop
  that nobody interrupts, a wait that nobody ends.
\<close>

datatype 'a outcome = Returns 'a | Raises exc | Blocks

subsection \<open>The outside world\<close>

record env =
  script_dir :: string
  os_chdir :: "unit outcome"
  path_exists :: "string \<Rightarrow> bool"
  TCPServer :: "unit outcome"
  webbrowser_open :: "bool outcome"
  serve_forever :: "unit outcome"

text \<open>
  The number of the error "address already in use" depends on the platform: it is the
  value of \<^verbatim>\<open>errno.EADDRINUSE\<close>, 48 on macOS and the BSDs, 98 on Linux. A bind on an
  occupied port raises \<^verbatim>\<open>OSError\<close> with that number.
\<close>

datatype platform = Darwin | Linux

fun EADDRINUSE :: "platform \<Rightarrow> int" where
  "EADDRINUSE Darwin = 48"
| "EADDRINUSE Linux = 98"

subsection \<open>Decimal rendering of integers in f-strings\<close>

definition digit :: "nat \<Rightarrow> char" where
  "digit d = ''0123456789'' ! d"

fun str_nat :: "nat \<Rightarrow> string" where
  "str_nat n =
     (if n < 10 then [digit n]
      else str_nat (n div 10) @ [digit (n mod 10)])"

declare str_nat.simps [simp del]

definition str_int :: "int \<Rightarrow> string" where
  "str_int i = (if i < 0 then ''-'' @ str_nat (nat (- i)) else str_nat (nat i))"

definition address_in_use :: "platform \<Rightarrow> exc" where
  "address_in_use p =
     OSError (Some (EADDRINUSE p))
       (''[Errno '' @ str_int (EADDRINUSE p) @ ''] Address already in use'')"

subsection \<open>Configuration (lines 18, 19 and 26)\<close>

definition PORT :: int where
  "PORT = 8000"

definition HOST :: string where
  "HOST = ''localhost''"

definition required_files :: "string list" where
  "required_files = [''index.html'', ''js/app.js'']"

subsection \<open>Printed text\<close>

text \<open>The non-ASCII characters of the messages, as the bytes of their UTF-8 encoding.\<close>

definition cross_mark :: string where
  "cross_mark = [CHR 0xE2, CHR 0x9D, CHR 0x8C]"

definition milky_way :: string where
  "milky_way = [CHR 0xF0, CHR 0x9F, CHR 0x8C, CHR 0x8C]"

definition rocket :: string where
  "rocket = [CHR 0xF0, CHR 0x9F, CHR 0x9A, CHR 0x80]"

definition open_folder :: string where
  "open_folder = [CHR 0xF0, CHR 0x9F, CHR 0x93, CHR 0x82]"

definition direct_hit :: string where
  "direct_hit = [CHR 0xF0, CHR 0x9F, CHR 0x8E, CHR 0xAF]"

definition clipboard :: string where
  "clipboard = [CHR 0xF0, CHR 0x9F, CHR 0x93, CHR 0x8B]"

definition light_bulb :: string where
  "light_bulb = [CHR 0xF0, CHR 0x9F, CHR 0x92, CHR 0xA1]"

definition stop_button :: string where
  "stop_button = [CHR 0xE2, CHR 0x8F, CHR 0xB9, CHR 0xEF, CHR 0xB8, CHR 0x8F]"

definition warning_sign :: string where
  "warning_sign = [CHR 0xE2, CHR 0x9A, CHR 0xA0, CHR 0xEF, CHR 0xB8, CHR 0x8F]"

definition stop_sign :: string where
  "stop_sign = [CHR 0xF0, CHR 0x9F, CHR 0x9B, CHR 0x91]"

definition rule_line :: string where
  "rule_line = replicate 50 (CHR ''='')"

definition base_url :: string where
  "base_url = ''http://'' @ HOST @ '':'' @ str_int PORT"

definition demo_url :: string where
  "demo_url = base_url @ ''/demo.html''"

text \<open>Lines 34 to 37: what is printed for a non-empty list of missing files.\<close>

definition missing_report :: "string list \<Rightarrow> string list" where
  "missing_report missing_files =
     [cross_mark @ '' Error: Missing required files:''] @
     map (\<lambda>file_path. ''   - '' @ file_path) missing_files @
     [[CHR 0x0A] @ ''Please ensure all application files are present.'']"

text \<open>Lines 45 to 58: the banner.\<close>

definition banner :: "env \<Rightarrow> string list" where
  "banner e =
     [milky_way @ '' Historical Universe Models - 3D Explorer'',
      rule_line,
      rocket @ '' Server starting on '' @ base_url,
      open_folder @ '' Serving from: '' @ script_dir e,
      rule_line,
      [],
      direct_hit @ '' Main Application: '' @ base_url @ ''/'',
      clipboard @ '' Demo Page: '' @ demo_url,
      [],
      light_bulb @ '' The application will open automatically in your browser.'',
      ''   If it doesn'' @ [CHR 0x27] @ ''t, copy and paste the URL above.'',
      [],
      stop_button @ ''  Press Ctrl+C to stop the server'',
      rule_line]"

text \<open>Lines 64 and 65: the warning of the inner handler.\<close>

definition browser_warning :: "exc \<Rightarrow> string list" where
  "browser_warning x =
     [warning_sign @ ''  Could not auto-open browser: '' @ str_exc x,
      ''   Please manually open '' @ base_url @ ''/ in your browser'']"

definition stopped_message :: string where
  "stopped_message = [CHR 0x0A] @ stop_sign @ '' Server stopped by user''"

definition port_in_use_report :: "string list" where
  "port_in_use_report =
     [cross_mark @ '' Error: Port '' @ str_int PORT @ '' is already in use.'',
      ''   Try using a different port or stop the other server.'']"

definition error_starting :: "exc \<Rightarrow> string" where
  "error_starting x = cross_mark @ '' Error starting server: '' @ str_exc x"

definition unexpected_error :: "exc \<Rightarrow> string" where
  "unexpected_error x = cross_mark @ '' Unexpected error: '' @ str_exc x"

subsection \<open>What a run is\<close>

text \<open>
  The calls that leave the process, in order. \<open>Bind\<close> is the call of the constructor
  \<^verbatim>\<open>socketserver.TCPServer((HOST, PORT), handler)\<close>, which binds and listens.
\<close>

datatype event =
    Chdir string
  | Print string
  | Bind string int
  | OpenBrowser string
  | ServeForever
  | Shutdown

text \<open>
  The server object. \<open>is_shut_down\<close> is the event of the standard library's
  \<^verbatim>\<open>BaseServer\<close>: unset at construction, set when \<^verbatim>\<open>serve_forever\<close> leaves its loop (by
  return or by an exception), and waited for by \<^verbatim>\<open>shutdown\<close>.
\<close>

record server =
  server_address :: "string \<times> int"
  is_shut_down :: bool

text \<open>
  How the process ends: \<open>Exited n\<close> by \<^verbatim>\<open>sys.exit(n)\<close> or, with \<open>n = 0\<close>, by \<^verbatim>\<open>main\<close>
  returning; \<open>Uncaught x\<close> when \<open>x\<close> leaves \<^verbatim>\<open>main\<close> (the interpreter prints a traceback);
  \<open>Running\<close> when the last call of the trace never returns.
\<close>

datatype result = Exited int | Uncaught exc | Running

record run =
  trace :: "event list"
  httpd :: "server option"
  result :: result

text \<open>
  The script never calls \<^verbatim>\<open>server_close\<close>: the listening socket of a constructed server
  stays open as long as the process lives, and goes with it.
\<close>

definition listening :: "run \<Rightarrow> bool" where
  "listening r = (httpd r \<noteq> None \<and> result r = Running)"

fun printed :: "event list \<Rightarrow> string list" where
  "printed [] = []"
| "printed (Print s # es) = s # printed es"
| "printed (ev # es) = printed es"

fun binds :: "event list \<Rightarrow> (string \<times> int) list" where
  "binds [] = []"
| "binds (Bind h p # es) = (h, p) # binds es"
| "binds (ev # es) = binds es"

fun browser_attempts :: "event list \<Rightarrow> string list" where
  "browser_attempts [] = []"
| "browser_attempts (OpenBrowser u # es) = u # browser_attempts es"
| "browser_attempts (ev # es) = browser_attempts es"

subsection \<open>Preflight (lines 27 to 31)\<close>

fun check_required :: "(string \<Rightarrow> bool) \<Rightarrow> string list \<Rightarrow> string list \<Rightarrow> string list" where
  "check_required ex [] missing_files = missing_files"
| "check_required ex (file_path # rest) missing_files =
     check_required ex rest
       (if \<not> ex file_path then missing_files @ [file_path] else missing_files)"

subsection \<open>The try block (lines 42 to 68)\<close>

text \<open>How the try block ends: it falls through, raises, or hangs in a call.\<close>

datatype try_end = Completed | Raised exc | Stuck

definition serve_step :: "env \<Rightarrow> server \<Rightarrow> event list \<Rightarrow> event list \<times> server option \<times> try_end" where
  "serve_step e srv tr =
     (case serve_forever e of
        Blocks \<Rightarrow> (tr @ [ServeForever], Some srv, Stuck)
      | Raises x \<Rightarrow> (tr @ [ServeForever], Some (srv\<lparr>is_shut_down := True\<rparr>), Raised x)
      | Returns u \<Rightarrow> (tr @ [ServeForever], Some (srv\<lparr>is_shut_down := True\<rparr>), Completed))"

definition browser_step :: "env \<Rightarrow> server \<Rightarrow> event list \<Rightarrow> event list \<times> server option \<times> try_end" where
  "browser_step e srv tr =
     (case webbrowser_open e of
        Blocks \<Rightarrow> (tr @ [OpenBrowser demo_url], Some srv, Stuck)
      | Raises x \<Rightarrow>
          if is_Exception x
          then serve_step e srv (tr @ [OpenBrowser demo_url] @ map Print (browser_warning x))
          else (tr @ [OpenBrowser demo_url], Some srv, Raised x)
      | Returns b \<Rightarrow> serve_step e srv (tr @ [OpenBrowser demo_url]))"

definition try_block :: "env \<Rightarrow> event list \<Rightarrow> event list \<times> server option \<times> try_end" where
  "try_block e tr =
     (case TCPServer e of
        Blocks \<Rightarrow> (tr @ [Bind HOST PORT], None, Stuck)
      | Raises x \<Rightarrow> (tr @ [Bind HOST PORT], None, Raised x)
      | Returns u \<Rightarrow>
          browser_step e \<lparr>server_address = (HOST, PORT), is_shut_down = False\<rparr>
            (tr @ [Bind HOST PORT] @ map Print (banner e)))"

subsection \<open>The except clauses (lines 70 to 85)\<close>

text \<open>
  The clauses are tried in the order of the source. An exception raised inside a clause
  is not offered to the clauses after it: it leaves \<^verbatim>\<open>main\<close>.
\<close>

fun except_clauses :: "event list \<Rightarrow> server option \<Rightarrow> exc \<Rightarrow> run" where
  "except_clauses tr h KeyboardInterrupt =
     (case h of
        None \<Rightarrow>
          \<lparr>trace = tr @ [Print stopped_message], httpd = None,
           result = Uncaught (UnboundLocalError ''httpd'')\<rparr>
      | Some srv \<Rightarrow>
          \<lparr>trace = tr @ [Print stopped_message, Shutdown], httpd = Some srv,
           result = (if is_shut_down srv then Exited 0 else Running)\<rparr>)"
| "except_clauses tr h (OSError n s) =
     \<lparr>trace = tr @ (if n = Some 48 then map Print port_in_use_report
                     else [Print (error_starting (OSError n s))]),
      httpd = h, result = Exited 1\<rparr>"
| "except_clauses tr h (Exception s) =
     \<lparr>trace = tr @ [Print (unexpected_error (Exception s))], httpd = h, result = Exited 1\<rparr>"
| "except_clauses tr h (UnboundLocalError v) =
     \<lparr>trace = tr @ [Print (unexpected_error (UnboundLocalError v))], httpd = h,
      result = Exited 1\<rparr>"
| "except_clauses tr h (BaseException s) =
     \<lparr>trace = tr, httpd = h, result = Uncaught (BaseException s)\<rparr>"

fun finish :: "event list \<times> server option \<times> try_end \<Rightarrow> run" where
  "finish (tr, h, Completed) = \<lparr>trace = tr, httpd = h, result = Exited 0\<rparr>"
| "finish (tr, h, Stuck) = \<lparr>trace = tr, httpd = h, result = Running\<rparr>"
| "finish (tr, h, Raised x) = except_clauses tr h x"

subsection \<open>\<^verbatim>\<open>main\<close>\<close>

text \<open>
  The body of \<^verbatim>\<open>main\<close> with the list of line 26 as a parameter; \<open>main\<close> itself fixes it.
\<close>

definition main_with :: "string list \<Rightarrow> env \<Rightarrow> run" where
  "main_with required e =
     (case os_chdir e of
        Blocks \<Rightarrow> \<lparr>trace = [Chdir (script_dir e)], httpd = None, result = Running\<rparr>
      | Raises x \<Rightarrow> \<lparr>trace = [Chdir (script_dir e)], httpd = None, result = Uncaught x\<rparr>
      | Returns u \<Rightarrow>
          (let missing_files = check_required (path_exists e) required []
           in if missing_files \<noteq> []
              then \<lparr>trace = [Chdir (script_dir e)] @ map Print (missing_report missing_files),
                    httpd = None, result = Exited 1\<rparr>
              else finish (try_block e [Chdir (script_dir e)])))"

definition main :: "env \<Rightarrow> run" where
  "main e = main_with required_files e"

subsection \<open>Sample environments\<close>

text \<open>Everything in place, nobody presses Ctrl+C: the server serves.\<close>

definition env_ok :: env where
  "env_ok =
     \<lparr>script_dir = ''/srv/app'', os_chdir = Returns (), path_exists = (\<lambda>p. True),
      TCPServer = Returns (), webbrowser_open = Returns True, serve_forever = Blocks\<rparr>"

text \<open>The second concrete scenario of the specification: \<^verbatim>\<open>js/app.js\<close> is absent.\<close>

definition env_no_app :: env where
  "env_no_app = env_ok\<lparr>path_exists := (\<lambda>p. p \<noteq> ''js/app.js'')\<rparr>"

text \<open>The directory of the script cannot be entered.\<close>

definition env_no_dir :: env where
  "env_no_dir =
     env_ok\<lparr>os_chdir := Raises (OSError (Some 2) ''[Errno 2] No such file or directory'')\<rparr>"

text \<open>Another listener holds the port, on the given platform.\<close>

definition env_port_busy :: "platform \<Rightarrow> env" where
  "env_port_busy p = env_ok\<lparr>TCPServer := Raises (address_in_use p)\<rparr>"

text \<open>Ctrl+C while the constructor of the server runs.\<close>

definition env_early_interrupt :: env where
  "env_early_interrupt = env_ok\<lparr>TCPServer := Raises KeyboardInterrupt\<rparr>"

text \<open>No browser can be launched: \<^verbatim>\<open>webbrowser.open\<close> returns \<^verbatim>\<open>False\<close>.\<close>

definition env_headless :: env where
  "env_headless = env_ok\<lparr>webbrowser_open := Returns False\<rparr>"

text \<open>The launch of the browser raises.\<close>

definition env_browser_raises :: env where
  "env_browser_raises = env_ok\<lparr>webbrowser_open := Raises (Exception ''no display'')\<rparr>"

text \<open>The first concrete scenario of the specification: Ctrl+C while serving.\<close>

definition env_interrupted :: env where
  "env_interrupted = env_ok\<lparr>serve_forever := Raises KeyboardInterrupt\<rparr>"

text \<open>The page \<^verbatim>\<open>demo.html\<close> is absent, all else in place.\<close>

definition env_no_demo :: env where
  "env_no_demo = env_ok\<lparr>path_exists := (\<lambda>p. p \<noteq> ''demo.html'')\<rparr>"

text \<open>The constructor of the server fails with an exception that is no \<^verbatim>\<open>OSError\<close>.\<close>

definition env_bind_crash :: env where
  "env_bind_crash = env_ok\<lparr>TCPServer := Raises (Exception ''boom'')\<rparr>"

section \<open>Basic facts\<close>

lemma str_int_PORT: "str_int PORT = ''8000''"
  by (simp add: str_int_def PORT_def str_nat.simps digit_def)

lemma base_url_eq: "base_url = ''http://localhost:8000''"
  by (simp add: base_url_def HOST_def str_int_PORT)

lemma demo_url_eq: "demo_url = ''http://localhost:8000/demo.html''"
  by (simp add: demo_url_def base_url_eq)

lemma check_required_acc:
  "check_required ex req acc = acc @ filter (\<lambda>p. \<not> ex p) req"
  by (induction req arbitrary: acc) simp_all

lemma check_required_filter:
  "check_required ex req [] = filter (\<lambda>p. \<not> ex p) req"
  by (simp add: check_required_acc)

lemma binds_append: "binds (xs @ ys) = binds xs @ binds ys"
  by (induction xs rule: binds.induct) simp_all

lemma binds_map_Print: "binds (map Print ss) = []"
  by (induction ss) simp_all

lemma browser_attempts_append:
  "browser_attempts (xs @ ys) = browser_attempts xs @ browser_attempts ys"
  by (induction xs rule: browser_attempts.induct) simp_all

lemma browser_attempts_map_Print: "browser_attempts (map Print ss) = []"
  by (induction ss) simp_all

lemma printed_append: "printed (xs @ ys) = printed xs @ printed ys"
  by (induction xs rule: printed.induct) simp_all

lemma printed_map_Print: "printed (map Print ss) = ss"
  by (induction ss) simp_all

lemma required_files_present:
  "check_required ex required_files [] = [] \<longleftrightarrow> ex ''index.html'' \<and> ex ''js/app.js''"
  by (simp add: required_files_def)

lemma main_started:
  assumes "os_chdir e = Returns ()"
    and "check_required (path_exists e) required_files [] = []"
  shows "main e = finish (try_block e [Chdir (script_dir e)])"
  using assms by (simp add: main_def main_with_def)

lemma try_block_bound:
  assumes "TCPServer e = Returns ()"
  shows "try_block e tr =
    browser_step e \<lparr>server_address = (HOST, PORT), is_shut_down = False\<rparr>
      (tr @ [Bind HOST PORT] @ map Print (banner e))"
  using assms by (simp add: try_block_def)

lemma trace_except_clauses: "prefix tr (trace (except_clauses tr h x))"
  by (cases x) (simp_all split: option.splits)

lemma trace_finish: "prefix tr (trace (finish (tr, h, t)))"
  by (cases t) (simp_all add: trace_except_clauses)

lemma serve_step_trace: "fst (serve_step e srv tr) = tr @ [ServeForever]"
  by (simp add: serve_step_def split: outcome.splits)

lemma finish_serve_step: "prefix (tr @ [ServeForever]) (trace (finish (serve_step e srv tr)))"
proof -
  obtain h t where "serve_step e srv tr = (tr @ [ServeForever], h, t)"
    using serve_step_trace [of e srv tr] by (cases "serve_step e srv tr") simp
  then show ?thesis by (simp add: trace_finish)
qed

lemma check_required_all_present:
  assumes "\<And>p. p \<in> set required \<Longrightarrow> ex p"
  shows "check_required ex required [] = []"
  using assms by (simp add: check_required_filter)

lemma prefix_finish_browser_step:
  "prefix (tr @ [OpenBrowser demo_url]) (trace (finish (browser_step e srv tr)))"
proof (cases "webbrowser_open e")
  case (Returns b)
  have "prefix ((tr @ [OpenBrowser demo_url]) @ [ServeForever])
          (trace (finish (serve_step e srv (tr @ [OpenBrowser demo_url]))))"
    by (rule finish_serve_step)
  then have "prefix (tr @ [OpenBrowser demo_url])
          (trace (finish (serve_step e srv (tr @ [OpenBrowser demo_url]))))"
    by (rule append_prefixD)
  then show ?thesis using Returns by (simp add: browser_step_def)
next
  case (Raises x)
  show ?thesis
  proof (cases "is_Exception x")
    case True
    have "prefix (((tr @ [OpenBrowser demo_url]) @ map Print (browser_warning x)) @ [ServeForever])
            (trace (finish (serve_step e srv
               ((tr @ [OpenBrowser demo_url]) @ map Print (browser_warning x)))))"
      by (rule finish_serve_step)
    then have "prefix (tr @ [OpenBrowser demo_url])
            (trace (finish (serve_step e srv
               ((tr @ [OpenBrowser demo_url]) @ map Print (browser_warning x)))))"
      by (blast dest: append_prefixD)
    then show ?thesis using Raises True by (simp add: browser_step_def)
  next
    case False
    then show ?thesis using Raises
      by (simp add: browser_step_def trace_except_clauses)
  qed
next
  case Blocks
  then show ?thesis by (simp add: browser_step_def)
qed

lemma prefix_finish_try_block:
  "prefix (tr @ [Bind HOST PORT]) (trace (finish (try_block e tr)))"
proof (cases "TCPServer e")
  case (Returns u)
  have "prefix (((tr @ [Bind HOST PORT]) @ map Print (banner e)) @ [OpenBrowser demo_url])
          (trace (finish (browser_step e \<lparr>server_address = (HOST, PORT), is_shut_down = False\<rparr>
             ((tr @ [Bind HOST PORT]) @ map Print (banner e)))))"
    by (rule prefix_finish_browser_step)
  then have "prefix (tr @ [Bind HOST PORT])
          (trace (finish (browser_step e \<lparr>server_address = (HOST, PORT), is_shut_down = False\<rparr>
             ((tr @ [Bind HOST PORT]) @ map Print (banner e)))))"
    by (blast dest: append_prefixD)
  then show ?thesis using Returns by (simp add: try_block_def)
next
  case (Raises x)
  then show ?thesis
    by (simp add: try_block_def trace_except_clauses)
next
  case Blocks
  then show ?thesis by (simp add: try_block_def)
qed

lemma except_clauses_suffix:
  "\<exists>suf. trace (except_clauses tr h x) = tr @ suf \<and> browser_attempts suf = [] \<and> binds suf = []"
  by (cases x) (simp_all add: binds_map_Print browser_attempts_map_Print split: option.splits)

lemma finish_suffix:
  "\<exists>suf. trace (finish (tr, h, t)) = tr @ suf \<and> browser_attempts suf = [] \<and> binds suf = []"
  by (cases t) (simp_all add: except_clauses_suffix)

lemma serve_step_suffix:
  "\<exists>suf. trace (finish (serve_step e srv tr)) = tr @ ServeForever # suf
        \<and> browser_attempts suf = [] \<and> binds suf = []"
proof -
  obtain h t where st: "serve_step e srv tr = (tr @ [ServeForever], h, t)"
    using serve_step_trace [of e srv tr] by (cases "serve_step e srv tr") simp
  obtain suf where "trace (finish (tr @ [ServeForever], h, t)) = (tr @ [ServeForever]) @ suf"
    and "browser_attempts suf = []" and "binds suf = []"
    using finish_suffix [of "tr @ [ServeForever]" h t] by blast
  then show ?thesis by (simp add: st)
qed

lemma browser_step_suffix:
  "\<exists>suf. trace (finish (browser_step e srv tr)) = tr @ OpenBrowser demo_url # suf
        \<and> browser_attempts suf = [] \<and> binds suf = []"
proof (cases "webbrowser_open e")
  case (Returns b)
  obtain suf where "trace (finish (serve_step e srv (tr @ [OpenBrowser demo_url]))) =
      (tr @ [OpenBrowser demo_url]) @ ServeForever # suf"
    and "browser_attempts suf = []" and "binds suf = []"
    using serve_step_suffix [of e srv "tr @ [OpenBrowser demo_url]"] by blast
  then show ?thesis using Returns by (simp add: browser_step_def)
next
  case (Raises x)
  show ?thesis
  proof (cases "is_Exception x")
    case True
    obtain suf where "trace (finish (serve_step e srv
         (tr @ [OpenBrowser demo_url] @ map Print (browser_warning x)))) =
      (tr @ [OpenBrowser demo_url] @ map Print (browser_warning x)) @ ServeForever # suf"
      and "browser_attempts suf = []" and "binds suf = []"
      using serve_step_suffix [of e srv "tr @ [OpenBrowser demo_url] @ map Print (browser_warning x)"]
      by blast
    then show ?thesis using Raises True
      by (simp add: browser_step_def browser_attempts_append binds_append
            binds_map_Print browser_attempts_map_Print)
  next
    case False
    obtain suf where "trace (except_clauses (tr @ [OpenBrowser demo_url]) (Some srv) x) =
        (tr @ [OpenBrowser demo_url]) @ suf"
      and "browser_attempts suf = []" and "binds suf = []"
      using except_clauses_suffix [of "tr @ [OpenBrowser demo_url]" "Some srv" x] by blast
    then show ?thesis using Raises False by (simp add: browser_step_def)
  qed
next
  case Blocks
  then show ?thesis by (simp add: browser_step_def)
qed

lemma main_bound:
  assumes "os_chdir e = Returns ()"
    and "check_required (path_exists e) required_files [] = []"
    and "TCPServer e = Returns ()"
  shows "main e =
    finish (browser_step e \<lparr>server_address = (HOST, PORT), is_shut_down = False\<rparr>
      ([Chdir (script_dir e), Bind HOST PORT] @ map Print (banner e)))"
  using assms by (simp add: main_started try_block_bound)

lemma rule_line_Cons: "rule_line = CHR ''='' # replicate 49 (CHR ''='')"
  by (simp add: rule_line_def eval_nat_numeral)

lemma manual_open_line_not_in_banner:
  "''   Please manually open '' @ base_url @ ''/ in your browser'' \<notin> set (banner e)"
  by (simp add: banner_def base_url_eq demo_url_eq rule_line_Cons milky_way_def rocket_def
      open_folder_def direct_hit_def clipboard_def light_bulb_def stop_button_def)

lemma warning_not_in_banner: "w \<in> set (browser_warning y) \<Longrightarrow> w \<notin> set (banner e)"
  by (auto simp add: browser_warning_def banner_def base_url_eq demo_url_eq rule_line_Cons
      milky_way_def rocket_def open_folder_def direct_hit_def clipboard_def light_bulb_def
      stop_button_def warning_sign_def)

lemma except_clauses_no_warning:
  assumes "w \<in> set (browser_warning y)"
  shows "\<exists>msgs. printed (trace (except_clauses tr h x)) = printed tr @ msgs \<and> w \<notin> set msgs"
  using assms
  by (cases x)
     (auto simp add: printed_append browser_warning_def port_in_use_report_def
        error_starting_def unexpected_error_def stopped_message_def cross_mark_def
        warning_sign_def stop_sign_def base_url_eq str_int_PORT split: option.splits)

lemma finish_no_warning:
  assumes "w \<in> set (browser_warning y)"
  shows "\<exists>msgs. printed (trace (finish (tr, h, t))) = printed tr @ msgs \<and> w \<notin> set msgs"
  using except_clauses_no_warning [OF assms] by (cases t) simp_all

lemma serve_step_no_warning:
  assumes "w \<in> set (browser_warning y)"
  shows "\<exists>msgs. printed (trace (finish (serve_step e srv tr))) = printed tr @ msgs \<and> w \<notin> set msgs"
proof -
  obtain h t where st: "serve_step e srv tr = (tr @ [ServeForever], h, t)"
    using serve_step_trace [of e srv tr] by (cases "serve_step e srv tr") simp
  show ?thesis
    using finish_no_warning [OF assms, of "tr @ [ServeForever]" h t]
    by (simp add: st printed_append)
qed

lemma except_clauses_no_serve:
  "ServeForever \<in> set (trace (except_clauses tr h x)) \<Longrightarrow> ServeForever \<in> set tr"
  by (cases x) (auto split: option.splits if_splits)

lemma browser_step_reaches_serve:
  assumes "ServeForever \<in> set (trace (finish (browser_step e srv tr)))"
    and "ServeForever \<notin> set tr"
  shows "\<exists>tr'. finish (browser_step e srv tr) = finish (serve_step e srv tr')"
proof (cases "webbrowser_open e")
  case (Returns b)
  then show ?thesis by (auto simp add: browser_step_def)
next
  case (Raises x)
  show ?thesis
  proof (cases "is_Exception x")
    case True
    then show ?thesis using Raises by (auto simp add: browser_step_def)
  next
    case False
    then have "ServeForever \<in> set (trace (except_clauses (tr @ [OpenBrowser demo_url]) (Some srv) x))"
      using assms(1) Raises by (simp add: browser_step_def)
    then have "ServeForever \<in> set (tr @ [OpenBrowser demo_url])"
      by (rule except_clauses_no_serve)
    then show ?thesis using assms(2) by simp
  qed
next
  case Blocks
  then show ?thesis using assms by (simp add: browser_step_def)
qed

lemma main_reaches_serve:
  assumes "ServeForever \<in> set (trace (main e))"
  shows "\<exists>tr. main e =
    finish (serve_step e \<lparr>server_address = (HOST, PORT), is_shut_down = False\<rparr> tr)"
proof (cases "os_chdir e")
  case (Returns u)
  show ?thesis
  proof (cases "check_required (path_exists e) required_files [] = []")
    case True
    note m = this
    show ?thesis
    proof (cases "TCPServer e")
      case (Returns v)
      let ?pre = "[Chdir (script_dir e), Bind HOST PORT] @ map Print (banner e)"
      have run: "main e =
        finish (browser_step e \<lparr>server_address = (HOST, PORT), is_shut_down = False\<rparr> ?pre)"
        using \<open>os_chdir e = Returns u\<close> m Returns by (simp add: main_bound)
      have "ServeForever \<notin> set ?pre" by auto
      then show ?thesis
        using browser_step_reaches_serve [of e _ ?pre] assms run by metis
    next
      case (Raises x)
      have "main e = except_clauses [Chdir (script_dir e), Bind HOST PORT] None x"
        using \<open>os_chdir e = Returns u\<close> m Raises by (simp add: main_started try_block_def)
      then have "ServeForever \<in> set [Chdir (script_dir e), Bind HOST PORT]"
        using assms except_clauses_no_serve by metis
      then show ?thesis by simp
    next
      case Blocks
      then show ?thesis
        using \<open>os_chdir e = Returns u\<close> m assms by (simp add: main_started try_block_def)
    qed
  next
    case False
    then show ?thesis
      using Returns assms by (auto simp add: main_def main_with_def Let_def)
  qed
next
  case (Raises x)
  then show ?thesis using assms by (simp add: main_def main_with_def)
next
  case Blocks
  then show ?thesis using assms by (simp add: main_def main_with_def)
qed

lemma finish_serve_step_outcome:
  "result (finish (serve_step e srv tr)) = result (finish (serve_step e srv tr'))
 \<and> httpd (finish (serve_step e srv tr)) = httpd (finish (serve_step e srv tr'))"
proof (cases "serve_forever e")
  case (Raises x)
  then show ?thesis by (cases x) (simp_all add: serve_step_def)
qed (simp_all add: serve_step_def)

lemma address_in_use_Linux:
  "address_in_use Linux = OSError (Some 98) ''[Errno 98] Address already in use''"
  by (simp add: address_in_use_def str_int_def str_nat.simps digit_def)

lemma address_in_use_Darwin:
  "address_in_use Darwin = OSError (Some 48) ''[Errno 48] Address already in use''"
  by (simp add: address_in_use_def str_int_def str_nat.simps digit_def)

lemma main_port_busy_Darwin:
  "main (env_port_busy Darwin) =
     \<lparr>trace = [Chdir ''/srv/app'', Bind ''localhost'' 8000] @ map Print port_in_use_report,
      httpd = None, result = Exited 1\<rparr>"
  by (simp add: main_def main_with_def env_port_busy_def env_ok_def required_files_def
      try_block_def address_in_use_Darwin HOST_def PORT_def)

lemma except_clauses_Exception:
  assumes "is_Exception x"
  shows "result (except_clauses tr h x) = Exited 1
       \<and> (\<exists>m. last (trace (except_clauses tr h x)) = Print m)
       \<and> httpd (except_clauses tr h x) = h"
  using assms by (cases x) (simp_all add: port_in_use_report_def)

lemma banner_path_exists: "banner (e\<lparr>path_exists := f\<rparr>) = banner e"
  by (simp add: banner_def)

lemma serve_step_path_exists:
  "serve_step (e\<lparr>path_exists := f\<rparr>) srv tr = serve_step e srv tr"
  by (simp add: serve_step_def)

lemma browser_step_path_exists:
  "browser_step (e\<lparr>path_exists := f\<rparr>) srv tr = browser_step e srv tr"
  by (cases "webbrowser_open e") (simp_all add: browser_step_def serve_step_path_exists)

lemma try_block_path_exists:
  "try_block (e\<lparr>path_exists := f\<rparr>) tr = try_block e tr"
  by (cases "TCPServer e")
     (simp_all add: try_block_def browser_step_path_exists banner_path_exists)

lemma main_with_path_exists:
  assumes "check_required f required = check_required (path_exists e) required"
  shows "main_with required (e\<lparr>path_exists := f\<rparr>) = main_with required e"
  using assms
  by (cases "os_chdir e")
     (simp_all add: main_with_def try_block_path_exists Let_def cong: if_cong)

section \<open>Preflight\<close>

text \<open>
  Claim C3. Whenever some entry of the required-files list does not exist, the list of
  missing files is the list of the absent entries in the order of the input. The printed
  lines are, byte for byte, the header of line 34, then for each absent entry, in that
  order, three spaces, a hyphen, a space and the path (line 36), then the closing line of
  line 37; in particular the line of any absent entry \<open>p\<close> is printed. The process exits
  with status 1, and the constructor of the server is never called: no listener is bound.
  (The directory of the script was entered.)
\<close>

theorem C3_missing_files_exit_1:
  assumes "os_chdir e = Returns ()" and "p \<in> set required" and "\<not> path_exists e p"
  shows "check_required (path_exists e) required [] = filter (\<lambda>q. \<not> path_exists e q) required
       \<and> main_with required e =
           \<lparr>trace = [Chdir (script_dir e)] @
              map Print (missing_report (filter (\<lambda>q. \<not> path_exists e q) required)),
            httpd = None, result = Exited 1\<rparr>
       \<and> printed (trace (main_with required e)) =
            [[CHR 0xE2, CHR 0x9D, CHR 0x8C] @ '' Error: Missing required files:''] @
            map (\<lambda>q. ''   - '' @ q) (filter (\<lambda>q. \<not> path_exists e q) required) @
            [[CHR 0x0A] @ ''Please ensure all application files are present.'']
       \<and> ''   - '' @ p \<in> set (printed (trace (main_with required e)))
       \<and> binds (trace (main_with required e)) = []
       \<and> \<not> listening (main_with required e)"
proof -
  let ?m = "filter (\<lambda>q. \<not> path_exists e q) required"
  have m: "check_required (path_exists e) required [] = ?m"
    by (rule check_required_filter)
  have pm: "p \<in> set ?m" using assms(2,3) by simp
  then have ne: "?m \<noteq> []" by (metis empty_iff list.set(1))
  have run: "main_with required e =
      \<lparr>trace = [Chdir (script_dir e)] @ map Print (missing_report ?m),
       httpd = None, result = Exited 1\<rparr>"
    using ne by (simp add: main_with_def assms(1) m Let_def)
  have pr: "printed (trace (main_with required e)) =
      [[CHR 0xE2, CHR 0x9D, CHR 0x8C] @ '' Error: Missing required files:''] @
      map (\<lambda>q. ''   - '' @ q) ?m @
      [[CHR 0x0A] @ ''Please ensure all application files are present.'']"
  proof -
    have "printed (trace (main_with required e)) = missing_report ?m"
      by (simp add: run printed_map_Print)
    then show ?thesis
      by (simp add: missing_report_def cross_mark_def)
  qed
  have "''   - '' @ p \<in> (\<lambda>q. ''   - '' @ q) ` set ?m"
    using pm by (rule imageI)
  then have line: "''   - '' @ p \<in> set (printed (trace (main_with required e)))"
    unfolding pr by simp
  have b: "binds (trace (main_with required e)) = []"
    by (simp add: run binds_map_Print)
  have l: "\<not> listening (main_with required e)"
    by (simp add: run listening_def)
  from m run pr line b l show ?thesis by blast
qed

theorem C3_witness:
  "os_chdir env_no_app = Returns ()
 \<and> ''js/app.js'' \<in> set required_files
 \<and> \<not> path_exists env_no_app ''js/app.js''
 \<and> check_required (path_exists env_no_app) required_files [] = [''js/app.js'']
 \<and> printed (trace (main env_no_app)) =
     [[CHR 0xE2, CHR 0x9D, CHR 0x8C] @ '' Error: Missing required files:'',
      ''   - js/app.js'',
      [CHR 0x0A] @ ''Please ensure all application files are present.'']
 \<and> result (main env_no_app) = Exited 1
 \<and> binds (trace (main env_no_app)) = []"
proof -
  have h1: "os_chdir env_no_app = Returns ()"
    by (simp add: env_no_app_def env_ok_def)
  have h2: "''js/app.js'' \<in> set required_files"
    by (simp add: required_files_def)
  have h3: "\<not> path_exists env_no_app ''js/app.js''"
    by (simp add: env_no_app_def)
  have f: "filter (\<lambda>q. \<not> path_exists env_no_app q) required_files = [''js/app.js'']"
    by (simp add: env_no_app_def required_files_def)
  show ?thesis
    using C3_missing_files_exit_1 [OF h1 h2 h3] h1 h2 h3
    by (auto simp add: f main_def)
qed

text \<open>
  Claim C4. Whenever every entry of the required-files list exists, the list of missing
  files is empty, nothing is reported, and the run goes on to the try block: the next
  call after entering the directory is the constructor of the server on the fixed host
  and port. (The directory of the script was entered.)
\<close>

theorem C4_all_present_proceeds:
  assumes "os_chdir e = Returns ()" and "\<And>p. p \<in> set required \<Longrightarrow> path_exists e p"
  shows "check_required (path_exists e) required [] = []
       \<and> main_with required e = finish (try_block e [Chdir (script_dir e)])
       \<and> prefix [Chdir (script_dir e), Bind HOST PORT] (trace (main_with required e))
       \<and> printed (take 2 (trace (main_with required e))) = []"
proof -
  have m: "check_required (path_exists e) required [] = []"
    using assms(2) by (rule check_required_all_present)
  have run: "main_with required e = finish (try_block e [Chdir (script_dir e)])"
    by (simp add: main_with_def assms(1) m)
  have pre: "prefix [Chdir (script_dir e), Bind HOST PORT] (trace (main_with required e))"
    using prefix_finish_try_block [of "[Chdir (script_dir e)]" e] by (simp add: run)
  then obtain rest where "trace (main_with required e) = [Chdir (script_dir e), Bind HOST PORT] @ rest"
    by (auto simp add: prefix_def)
  then have "printed (take 2 (trace (main_with required e))) = []" by simp
  with m run pre show ?thesis by simp
qed

theorem C4_witness:
  "os_chdir env_ok = Returns ()
 \<and> path_exists env_ok ''index.html'' \<and> path_exists env_ok ''js/app.js''
 \<and> check_required (path_exists env_ok) required_files [] = []
 \<and> prefix [Chdir (script_dir env_ok), Bind HOST PORT] (trace (main env_ok))"
proof -
  have h1: "os_chdir env_ok = Returns ()"
    by (simp add: env_ok_def)
  have h2: "path_exists env_ok p" for p
    by (simp add: env_ok_def)
  show ?thesis
    using C4_all_present_proceeds [of env_ok required_files, OF h1 h2] h1 h2
    by (auto simp add: main_def)
qed

text \<open>
  Claim C9. The required-files list is \<open>[index.html, js/app.js]\<close>; \<^verbatim>\<open>demo.html\<close>, the page
  the browser is sent to, is not in it. Whether \<^verbatim>\<open>demo.html\<close> exists changes nothing in any
  run, and in the sample run where it is absent the browser is opened at it all the same.
\<close>

theorem C9_demo_page_not_checked:
  "required_files = [''index.html'', ''js/app.js'']
 \<and> ''demo.html'' \<notin> set required_files
 \<and> demo_url = ''http://localhost:8000/demo.html''
 \<and> main (e\<lparr>path_exists := (path_exists e)(''demo.html'' := b)\<rparr>) = main e
 \<and> \<not> path_exists env_no_demo ''demo.html''
 \<and> browser_attempts (trace (main env_no_demo)) = [''http://localhost:8000/demo.html'']"
proof -
  have same: "main (e\<lparr>path_exists := (path_exists e)(''demo.html'' := b)\<rparr>) = main e"
    unfolding main_def
    by (rule main_with_path_exists) (simp add: required_files_def fun_eq_iff)
  have att: "browser_attempts (trace (main env_no_demo)) = [''http://localhost:8000/demo.html'']"
    by (simp add: main_def main_with_def env_no_demo_def env_ok_def required_files_def
        try_block_def browser_step_def serve_step_def browser_attempts_append
        browser_attempts_map_Print demo_url_eq)
  show ?thesis
    using same att by (simp add: required_files_def demo_url_eq env_no_demo_def)
qed

section \<open>Interrupts\<close>

text \<open>
  Claim C2. In every run in which the serve loop was entered and a keyboard interrupt
  ends it, the handler prints its message and calls \<^verbatim>\<open>httpd.shutdown()\<close>, which returns at
  once because the loop has been left, and the process exits with status 0. The trace
  ends with the serve loop, the message and the shutdown; with the process gone, the
  server object of host and port no longer listens.
\<close>

theorem C2_interrupt_while_serving:
  assumes "ServeForever \<in> set (trace (main e))"
    and "serve_forever e = Raises KeyboardInterrupt"
  shows "result (main e) = Exited 0
       \<and> (\<exists>pre. trace (main e) = pre @ [ServeForever, Print stopped_message, Shutdown])
       \<and> httpd (main e) = Some \<lparr>server_address = (HOST, PORT), is_shut_down = True\<rparr>
       \<and> \<not> listening (main e)"
proof -
  obtain tr where "main e =
      finish (serve_step e \<lparr>server_address = (HOST, PORT), is_shut_down = False\<rparr> tr)"
    using main_reaches_serve [OF assms(1)] by blast
  then have "main e =
      \<lparr>trace = tr @ [ServeForever] @ [Print stopped_message, Shutdown],
       httpd = Some \<lparr>server_address = (HOST, PORT), is_shut_down = True\<rparr>,
       result = Exited 0\<rparr>"
    using assms(2) by (simp add: serve_step_def)
  then show ?thesis by (simp add: listening_def)
qed

theorem C2_witness:
  "ServeForever \<in> set (trace (main env_interrupted))
 \<and> serve_forever env_interrupted = Raises KeyboardInterrupt
 \<and> result (main env_interrupted) = Exited 0
 \<and> \<not> listening (main env_interrupted)"
proof -
  have h1: "ServeForever \<in> set (trace (main env_interrupted))"
    by (simp add: main_def main_with_def env_interrupted_def env_ok_def required_files_def
        try_block_def browser_step_def serve_step_def)
  have h2: "serve_forever env_interrupted = Raises KeyboardInterrupt"
    by (simp add: env_interrupted_def)
  show ?thesis
    using C2_interrupt_while_serving [OF h1 h2] h1 h2 by blast
qed

text \<open>
  Claim C8. When the keyboard interrupt arrives while the constructor of the server runs,
  the handler prints its message and then reads the local variable \<^verbatim>\<open>httpd\<close>, which was
  never assigned: \<^verbatim>\<open>UnboundLocalError\<close> is raised inside the handler and leaves \<^verbatim>\<open>main\<close>.
  The process does not exit with status 0.
\<close>

theorem C8_interrupt_before_httpd_bound:
  assumes "os_chdir e = Returns ()"
    and "check_required (path_exists e) required_files [] = []"
    and "TCPServer e = Raises KeyboardInterrupt"
  shows "main e =
           \<lparr>trace = [Chdir (script_dir e), Bind HOST PORT, Print stopped_message],
            httpd = None, result = Uncaught (UnboundLocalError ''httpd'')\<rparr>
       \<and> result (main e) \<noteq> Exited 0"
  using assms by (simp add: main_started try_block_def)

theorem C8_witness:
  "os_chdir env_early_interrupt = Returns ()
 \<and> check_required (path_exists env_early_interrupt) required_files [] = []
 \<and> TCPServer env_early_interrupt = Raises KeyboardInterrupt
 \<and> result (main env_early_interrupt) = Uncaught (UnboundLocalError ''httpd'')
 \<and> result (main env_early_interrupt) \<noteq> Exited 0"
  using C8_interrupt_before_httpd_bound [of env_early_interrupt]
  by (simp add: env_early_interrupt_def env_ok_def required_files_def)

section \<open>The launch of the browser\<close>

text \<open>
  Claim C7. In every run that reaches a constructed server (the directory was entered,
  both required files exist, the constructor returned with the socket bound and
  listening), the trace is: the change of directory, the constructor on
  \<open>(localhost, 8000)\<close>, the lines of the banner, then the one and only attempt to open the
  browser, at \<^verbatim>\<open>http://localhost:8000/demo.html\<close>, then the rest. The serve loop is not
  among the calls before the attempt; the rest holds no further attempt and no further
  constructor call.
\<close>

theorem C7_browser_after_bind_before_serve:
  assumes "os_chdir e = Returns ()"
    and "path_exists e ''index.html''" and "path_exists e ''js/app.js''"
    and "TCPServer e = Returns ()"
  shows "\<exists>rest.
           trace (main e) =
             [Chdir (script_dir e), Bind HOST PORT] @ map Print (banner e) @
             [OpenBrowser ''http://localhost:8000/demo.html''] @ rest
         \<and> ServeForever \<notin> set ([Chdir (script_dir e), Bind HOST PORT] @ map Print (banner e))
         \<and> browser_attempts rest = [] \<and> binds rest = []
         \<and> browser_attempts (trace (main e)) = [''http://localhost:8000/demo.html'']
         \<and> binds (trace (main e)) = [(''localhost'', 8000)]"
proof -
  have m: "check_required (path_exists e) required_files [] = []"
    using assms(2,3) by (simp add: required_files_present)
  let ?pre = "[Chdir (script_dir e), Bind HOST PORT] @ map Print (banner e)"
  obtain rest where tr: "trace (main e) = ?pre @ OpenBrowser demo_url # rest"
    and b: "browser_attempts rest = []" and c: "binds rest = []"
    using browser_step_suffix [of e _ ?pre] main_bound [OF assms(1) m assms(4)] by metis
  have "browser_attempts (trace (main e)) = [demo_url]"
    by (simp add: tr b browser_attempts_append browser_attempts_map_Print)
  moreover have "binds (trace (main e)) = [(HOST, PORT)]"
    by (simp add: tr c binds_append binds_map_Print)
  ultimately show ?thesis using tr b c
    by (auto simp add: demo_url_eq HOST_def PORT_def)
qed

theorem C7_witness:
  "os_chdir env_ok = Returns ()
 \<and> path_exists env_ok ''index.html'' \<and> path_exists env_ok ''js/app.js''
 \<and> TCPServer env_ok = Returns ()
 \<and> browser_attempts (trace (main env_ok)) = [''http://localhost:8000/demo.html'']
 \<and> binds (trace (main env_ok)) = [(''localhost'', 8000)]"
proof -
  have h1: "os_chdir env_ok = Returns ()" by (simp add: env_ok_def)
  have h2: "path_exists env_ok p" for p by (simp add: env_ok_def)
  have h3: "TCPServer env_ok = Returns ()" by (simp add: env_ok_def)
  show ?thesis
    using C7_browser_after_bind_before_serve [OF h1 h2 h2 h3] h1 h2 h3 by blast
qed

text \<open>
  Claim C10. When \<^verbatim>\<open>webbrowser.open\<close> reports failure by returning \<^verbatim>\<open>False\<close>, the result
  is ignored: the serve loop is the very next call after the attempt, the run is the
  same as the run in which the browser opened, and neither line of the warning is
  printed anywhere in the run.
\<close>

theorem C10_false_return_no_warning:
  assumes "os_chdir e = Returns ()"
    and "path_exists e ''index.html''" and "path_exists e ''js/app.js''"
    and "TCPServer e = Returns ()"
    and "webbrowser_open e = Returns False"
  shows "prefix ([Chdir (script_dir e), Bind HOST PORT] @ map Print (banner e) @
                 [OpenBrowser demo_url, ServeForever]) (trace (main e))
       \<and> main e = main (e\<lparr>webbrowser_open := Returns True\<rparr>)
       \<and> set (browser_warning x) \<inter> set (printed (trace (main e))) = {}"
proof -
  have m: "check_required (path_exists e) required_files [] = []"
    using assms(2,3) by (simp add: required_files_present)
  let ?srv = "\<lparr>server_address = (HOST, PORT), is_shut_down = False\<rparr>"
  let ?pre = "[Chdir (script_dir e), Bind HOST PORT] @ map Print (banner e)"
  have run: "main e = finish (serve_step e ?srv (?pre @ [OpenBrowser demo_url]))"
    using main_bound [OF assms(1) m assms(4)] assms(5) by (simp add: browser_step_def)
  have "prefix ((?pre @ [OpenBrowser demo_url]) @ [ServeForever]) (trace (main e))"
    unfolding run by (rule finish_serve_step)
  then have p: "prefix (?pre @ [OpenBrowser demo_url, ServeForever]) (trace (main e))"
    by simp
  let ?e' = "e\<lparr>webbrowser_open := Returns True\<rparr>"
  have "main ?e' = finish (serve_step ?e' ?srv (?pre @ [OpenBrowser demo_url]))"
    using main_bound [of ?e'] assms(1,4) m by (simp add: browser_step_def banner_def)
  also have "\<dots> = finish (serve_step e ?srv (?pre @ [OpenBrowser demo_url]))"
    by (simp add: serve_step_def)
  finally have same: "main e = main ?e'" by (simp add: run)
  have nw: "w \<notin> set (printed (trace (main e)))" if w: "w \<in> set (browser_warning x)" for w
  proof -
    obtain msgs where "printed (trace (main e)) = printed (?pre @ [OpenBrowser demo_url]) @ msgs"
      and "w \<notin> set msgs"
      using serve_step_no_warning [OF w, of e ?srv "?pre @ [OpenBrowser demo_url]"]
      by (auto simp add: run)
    then show ?thesis
      using warning_not_in_banner [OF w, of e]
      by (simp add: printed_append printed_map_Print)
  qed
  then have "set (browser_warning x) \<inter> set (printed (trace (main e))) = {}"
    by blast
  with p same show ?thesis by simp
qed

theorem C10_witness:
  "os_chdir env_headless = Returns ()
 \<and> path_exists env_headless ''index.html'' \<and> path_exists env_headless ''js/app.js''
 \<and> TCPServer env_headless = Returns ()
 \<and> webbrowser_open env_headless = Returns False
 \<and> main env_headless = main (env_headless\<lparr>webbrowser_open := Returns True\<rparr>)
 \<and> set (browser_warning (Exception ''no display'')) \<inter>
     set (printed (trace (main env_headless))) = {}"
proof -
  have h1: "os_chdir env_headless = Returns ()"
    by (simp add: env_headless_def env_ok_def)
  have h2: "path_exists env_headless p" for p
    by (simp add: env_headless_def env_ok_def)
  have h3: "TCPServer env_headless = Returns ()"
    by (simp add: env_headless_def env_ok_def)
  have h4: "webbrowser_open env_headless = Returns False"
    by (simp add: env_headless_def)
  show ?thesis
    using C10_false_return_no_warning [OF h1 h2 h2 h3 h4, of "Exception ''no display''"]
      h1 h2 h3 h4
    by blast
qed

text \<open>
  Claim C5, at the input where it fails. \<^verbatim>\<open>webbrowser.open\<close> reports that no browser
  could be started by returning \<^verbatim>\<open>False\<close>; line 62 drops the result. In the run below the
  launch fails in that way: the printed lines are those of the banner, the line with the
  manual-open instructions is not among them, and the server serves.
\<close>

theorem C5_false_return_prints_no_warning:
  "webbrowser_open env_headless = Returns False
 \<and> printed (trace (main env_headless)) = banner env_headless
 \<and> ''   Please manually open http://localhost:8000/ in your browser''
     \<notin> set (printed (trace (main env_headless)))
 \<and> result (main env_headless) = Running"
proof -
  have p: "printed (trace (main env_headless)) = banner env_headless"
    by (simp add: main_def main_with_def env_headless_def env_ok_def required_files_def
        try_block_def browser_step_def serve_step_def printed_append printed_map_Print)
  have r: "result (main env_headless) = Running"
    by (simp add: main_def main_with_def env_headless_def env_ok_def required_files_def
        try_block_def browser_step_def serve_step_def)
  have h: "webbrowser_open env_headless = Returns False"
    by (simp add: env_headless_def)
  have "''   Please manually open http://localhost:8000/ in your browser''
      \<notin> set (banner env_headless)"
    using manual_open_line_not_in_banner [of env_headless] by (simp add: base_url_eq)
  then show ?thesis
    by (simp add: p r h)
qed

text \<open>
  The sibling path, on which the warning is printed. When \<^verbatim>\<open>webbrowser.open\<close> raises an
  exception of class \<^verbatim>\<open>Exception\<close>, the inner handler catches it, prints the two lines of
  the warning (the second gives the manual-open instructions), and the serve loop is the
  next call; the run ends as the run in which the browser opened, with the same server
  object. On neither path is the failure fatal.
\<close>

lemma browser_exception_caught:
  assumes "os_chdir e = Returns ()"
    and "path_exists e ''index.html''" and "path_exists e ''js/app.js''"
    and "TCPServer e = Returns ()"
    and "webbrowser_open e = Raises x" and "is_Exception x"
  shows "prefix ([Chdir (script_dir e), Bind HOST PORT] @ map Print (banner e) @
                 [OpenBrowser demo_url] @ map Print (browser_warning x) @ [ServeForever])
           (trace (main e))
       \<and> result (main e) = result (main (e\<lparr>webbrowser_open := Returns True\<rparr>))
       \<and> httpd (main e) = httpd (main (e\<lparr>webbrowser_open := Returns True\<rparr>))"
proof -
  have m: "check_required (path_exists e) required_files [] = []"
    using assms(2,3) by (simp add: required_files_present)
  let ?srv = "\<lparr>server_address = (HOST, PORT), is_shut_down = False\<rparr>"
  let ?pre = "[Chdir (script_dir e), Bind HOST PORT] @ map Print (banner e)"
  let ?tr = "?pre @ [OpenBrowser demo_url] @ map Print (browser_warning x)"
  have run: "main e = finish (serve_step e ?srv ?tr)"
    using main_bound [OF assms(1) m assms(4)] assms(5,6) by (simp add: browser_step_def)
  have "prefix (?tr @ [ServeForever]) (trace (main e))"
    unfolding run by (rule finish_serve_step)
  then have p: "prefix (?pre @ [OpenBrowser demo_url] @ map Print (browser_warning x) @ [ServeForever])
      (trace (main e))"
    by simp
  let ?e' = "e\<lparr>webbrowser_open := Returns True\<rparr>"
  have "main ?e' = finish (serve_step ?e' ?srv (?pre @ [OpenBrowser demo_url]))"
    using main_bound [of ?e'] assms(1,4) m by (simp add: browser_step_def banner_def)
  also have "\<dots> = finish (serve_step e ?srv (?pre @ [OpenBrowser demo_url]))"
    by (simp add: serve_step_def)
  finally have run': "main ?e' = finish (serve_step e ?srv (?pre @ [OpenBrowser demo_url]))" .
  show ?thesis
    using p finish_serve_step_outcome [of e ?srv ?tr "?pre @ [OpenBrowser demo_url]"]
    unfolding run run' by simp
qed

lemma browser_exception_caught_example:
  "os_chdir env_browser_raises = Returns ()
 \<and> path_exists env_browser_raises ''index.html''
 \<and> path_exists env_browser_raises ''js/app.js''
 \<and> TCPServer env_browser_raises = Returns ()
 \<and> webbrowser_open env_browser_raises = Raises (Exception ''no display'')
 \<and> is_Exception (Exception ''no display'')
 \<and> prefix ([Chdir (script_dir env_browser_raises), Bind HOST PORT] @
            map Print (banner env_browser_raises) @ [OpenBrowser demo_url] @
            map Print (browser_warning (Exception ''no display'')) @ [ServeForever])
      (trace (main env_browser_raises))
 \<and> result (main env_browser_raises) =
     result (main (env_browser_raises\<lparr>webbrowser_open := Returns True\<rparr>))"
proof -
  have h1: "os_chdir env_browser_raises = Returns ()"
    by (simp add: env_browser_raises_def env_ok_def)
  have h2: "path_exists env_browser_raises p" for p
    by (simp add: env_browser_raises_def env_ok_def)
  have h3: "TCPServer env_browser_raises = Returns ()"
    by (simp add: env_browser_raises_def env_ok_def)
  have h4: "webbrowser_open env_browser_raises = Raises (Exception ''no display'')"
    by (simp add: env_browser_raises_def)
  have h5: "is_Exception (Exception ''no display'')"
    by simp
  show ?thesis
    using browser_exception_caught [OF h1 h2 h2 h3 h4 h5] h1 h2 h3 h4 h5
    by blast
qed

section \<open>Errors\<close>

text \<open>
  Claim C1, at the input where it fails. On Linux a bind on an occupied port raises
  \<^verbatim>\<open>OSError\<close> with errno 98. The test of line 76 compares with 48, so the run prints the
  generic line "Error starting server" with the text of the exception; neither line of
  the port-in-use report is printed. The exit status is 1 and the browser is not opened.
  (On macOS, where the number is 48, the report is printed: \<open>main_port_busy_Darwin\<close>.)
\<close>

theorem C1_port_busy_linux_generic_message:
  "TCPServer (env_port_busy Linux) = Raises (OSError (Some 98) ''[Errno 98] Address already in use'')
 \<and> main (env_port_busy Linux) =
     \<lparr>trace = [Chdir ''/srv/app'', Bind ''localhost'' 8000,
               Print (cross_mark @ '' Error starting server: [Errno 98] Address already in use'')],
      httpd = None, result = Exited 1\<rparr>
 \<and> set port_in_use_report \<inter> set (printed (trace (main (env_port_busy Linux)))) = {}
 \<and> browser_attempts (trace (main (env_port_busy Linux))) = []"
proof -
  have t: "TCPServer (env_port_busy Linux) =
      Raises (OSError (Some 98) ''[Errno 98] Address already in use'')"
    by (simp add: env_port_busy_def address_in_use_Linux)
  have run: "main (env_port_busy Linux) =
     \<lparr>trace = [Chdir ''/srv/app'', Bind ''localhost'' 8000,
               Print (cross_mark @ '' Error starting server: [Errno 98] Address already in use'')],
      httpd = None, result = Exited 1\<rparr>"
    by (simp add: main_def main_with_def env_port_busy_def env_ok_def required_files_def
        try_block_def address_in_use_Linux HOST_def PORT_def error_starting_def)
  have "set port_in_use_report \<inter> set (printed (trace (main (env_port_busy Linux)))) = {}"
    by (simp add: run port_in_use_report_def str_int_PORT cross_mark_def)
  then show ?thesis using t run by simp
qed

text \<open>
  Claim C6, as stated, fails. An exception raised by \<^verbatim>\<open>os.chdir\<close>, before the try block,
  leaves \<^verbatim>\<open>main\<close> with nothing printed; and the \<^verbatim>\<open>UnboundLocalError\<close> raised inside the
  interrupt handler, when the interrupt came during the constructor, leaves \<^verbatim>\<open>main\<close> too.
\<close>

theorem C6_counterexample:
  "result (main env_no_dir) = Uncaught (OSError (Some 2) ''[Errno 2] No such file or directory'')
 \<and> printed (trace (main env_no_dir)) = []
 \<and> result (main env_early_interrupt) = Uncaught (UnboundLocalError ''httpd'')"
  by (simp add: main_def main_with_def env_no_dir_def env_early_interrupt_def env_ok_def
      required_files_def try_block_def)

text \<open>
  Claim C6, amended. Once the directory of the script is entered, each of these ends the
  run with a printed message as its last event, exit status 1 and no listener left:
  a missing required file; an exception of class \<^verbatim>\<open>Exception\<close> raised by the constructor
  of the server; an exception of class \<^verbatim>\<open>Exception\<close> raised by the serve loop.
\<close>

theorem C6_exceptions_in_try_exit_1:
  assumes "os_chdir e = Returns ()"
    and "check_required (path_exists e) required_files [] \<noteq> []
       \<or> TCPServer e = Raises x \<and> is_Exception x
       \<or> ServeForever \<in> set (trace (main e)) \<and> serve_forever e = Raises x \<and> is_Exception x"
  shows "result (main e) = Exited 1
       \<and> (\<exists>m. last (trace (main e)) = Print m)
       \<and> \<not> listening (main e)"
proof (cases "check_required (path_exists e) required_files [] = []")
  case False
  then show ?thesis
    using assms(1)
    by (simp add: main_def main_with_def Let_def missing_report_def listening_def)
next
  case True
  note m = this
  from assms(2) m consider
      (bind) "TCPServer e = Raises x" "is_Exception x"
    | (serve) "ServeForever \<in> set (trace (main e))" "serve_forever e = Raises x" "is_Exception x"
    by blast
  then show ?thesis
  proof cases
    case bind
    have "main e = except_clauses [Chdir (script_dir e), Bind HOST PORT] None x"
      using assms(1) m bind(1) by (simp add: main_started try_block_def)
    then show ?thesis
      using except_clauses_Exception [OF bind(2), of "[Chdir (script_dir e), Bind HOST PORT]" None]
      by (simp add: listening_def)
  next
    case serve
    obtain tr where "main e =
        finish (serve_step e \<lparr>server_address = (HOST, PORT), is_shut_down = False\<rparr> tr)"
      using main_reaches_serve [OF serve(1)] by blast
    then have "main e = except_clauses (tr @ [ServeForever])
        (Some \<lparr>server_address = (HOST, PORT), is_shut_down = True\<rparr>) x"
      using serve(2) by (simp add: serve_step_def)
    then show ?thesis
      using except_clauses_Exception [OF serve(3), of "tr @ [ServeForever]"
          "Some \<lparr>server_address = (HOST, PORT), is_shut_down = True\<rparr>"]
      by (simp add: listening_def)
  qed
qed

theorem C6_witness:
  "os_chdir env_bind_crash = Returns ()
 \<and> TCPServer env_bind_crash = Raises (Exception ''boom'')
 \<and> is_Exception (Exception ''boom'')
 \<and> result (main env_bind_crash) = Exited 1
 \<and> \<not> listening (main env_bind_crash)"
proof -
  have h1: "os_chdir env_bind_crash = Returns ()"
    by (simp add: env_bind_crash_def env_ok_def)
  have h2: "TCPServer env_bind_crash = Raises (Exception ''boom'')"
    by (simp add: env_bind_crash_def)
  have h3: "is_Exception (Exception ''boom'')"
    by simp
  have h: "check_required (path_exists env_bind_crash) required_files [] \<noteq> []
       \<or> TCPServer env_bind_crash = Raises (Exception ''boom'') \<and> is_Exception (Exception ''boom'')
       \<or> ServeForever \<in> set (trace (main env_bind_crash))
          \<and> serve_forever env_bind_crash = Raises (Exception ''boom'')
          \<and> is_Exception (Exception ''boom'')"
    using h2 h3 by blast
  show ?thesis
    using C6_exceptions_in_try_exit_1 [OF h1 h] h1 h2 h3 by blast
qed

end
